theory Spec2Isabelle
  imports Main "HOL-Library.Word"
begin

section \<open>Failures\<close>

text \<open>
  The C++ code fails in two different ways. A \<^verbatim>\<open>CHECK\<close> that does not hold
  aborts the process; \<^verbatim>\<open>TF_RET_CHECK\<close>, \<^verbatim>\<open>TF_RETURN_IF_ERROR\<close> and
  \<^verbatim>\<open>TF_ASSIGN_OR_RETURN\<close> return an \<^verbatim>\<open>absl::Status\<close> to the caller.
  A status is a code and a message.
\<close>

datatype StatusCode = kInternal | kInvalidArgument | kUnimplemented | kUnknown | kCancelled

type_synonym Status = "StatusCode \<times> string"

datatype failure = CheckFailure string | ErrorStatus Status

section \<open>The LLVM module and the constants of the emitter context\<close>

text \<open>
  Of \<^verbatim>\<open>llvm::Module\<close> the code uses the table of global variables, looked up by
  name with \<^verbatim>\<open>getGlobalVariable\<close> (a null pointer when there is none), and of a
  global variable whether it has uses (\<^verbatim>\<open>use_empty\<close>) and its removal from the
  module (\<^verbatim>\<open>eraseFromParent\<close>). The symbol table of a module holds one global per
  name, so the module is the map from each name to the global that the lookup finds.
\<close>

record GlobalVariable =
  num_uses :: nat

type_synonym Module = "string \<rightharpoonup> GlobalVariable"

definition use_empty :: "GlobalVariable \<Rightarrow> bool" where
  "use_empty global = (num_uses global = 0)"

definition getGlobalVariable :: "Module \<Rightarrow> string \<Rightarrow> GlobalVariable option" where
  "getGlobalVariable llvm_module symbol = llvm_module symbol"

definition eraseFromParent :: "string \<Rightarrow> Module \<Rightarrow> Module" where
  "eraseFromParent symbol llvm_module = llvm_module(symbol := None)"

text \<open>
  \<^verbatim>\<open>GpuExecutable::ConstantInfo\<close>: the symbol name of the constant's global, its
  content as bytes (\<^verbatim>\<open>content.span()\<close>) and the index of its allocation.
\<close>

record ConstantInfo =
  symbol_name :: string
  content :: "nat list"
  allocation_index :: int

text \<open>
  \<^verbatim>\<open>RemoveUnusedAndUninitializedGlobals\<close>: the loop over \<^verbatim>\<open>constants\<close>. A constant
  with empty content is skipped. For a constant with non-empty content the global is
  looked up, \<^verbatim>\<open>CHECK(global != nullptr)\<close> aborts when it is missing, and the global
  is erased when it has no uses.
\<close>

fun RemoveUnusedAndUninitializedGlobals ::
  "Module \<Rightarrow> ConstantInfo list \<Rightarrow> failure + Module" where
  "RemoveUnusedAndUninitializedGlobals llvm_module [] = Inr llvm_module"
| "RemoveUnusedAndUninitializedGlobals llvm_module (info # constants) =
     (if content info \<noteq> [] then
        (case getGlobalVariable llvm_module (symbol_name info) of
           None \<Rightarrow> Inl (CheckFailure ''global != nullptr'')
         | Some global \<Rightarrow>
             (if use_empty global
              then RemoveUnusedAndUninitializedGlobals
                     (eraseFromParent (symbol_name info) llvm_module) constants
              else RemoveUnusedAndUninitializedGlobals llvm_module constants))
      else RemoveUnusedAndUninitializedGlobals llvm_module constants)"

text \<open>
  The globals the pass is expected to remove, for comparison with what it does: those
  that have no uses and are named by some constant with non-empty content.
\<close>

definition prunable :: "Module \<Rightarrow> ConstantInfo list \<Rightarrow> string \<Rightarrow> bool" where
  "prunable m cs n =
     ((\<exists>info \<in> set cs. symbol_name info = n \<and> content info \<noteq> []) \<and>
      (\<exists>g. m n = Some g \<and> use_empty g))"

section \<open>The thunk tree and its traversal\<close>

text \<open>
  A thunk sequence is a vector of thunks. \<^verbatim>\<open>ForAllThunks\<close> tells three kinds of
  thunk apart by \<^verbatim>\<open>kind()\<close>: a conditional thunk holds one sequential thunk per
  branch (each with its own thunk sequence), a sequential thunk holds a thunk sequence,
  and a while thunk holds a condition sequence and a body sequence. A thunk of any other
  kind is a leaf; its number stands for the thunk object the action receives.
\<close>

datatype Thunk =
    Leaf nat
  | SequentialThunk "Thunk list"
  | ConditionalThunk "Thunk list list"
  | WhileThunk "Thunk list" "Thunk list"

text \<open>
  The action is a \<^verbatim>\<open>std::function<void(Thunk*)>\<close>: it returns nothing and acts
  through its effects, so the model threads a state \<open>'s\<close> through the calls. The outer
  loop runs over the sequence; the four branches of the source are the four cases.
\<close>

fun ForAllThunks :: "(Thunk \<Rightarrow> 's \<Rightarrow> 's) \<Rightarrow> Thunk list \<Rightarrow> 's \<Rightarrow> 's" where
  "ForAllThunks fn [] s = s"
| "ForAllThunks fn (thunk # thunk_sequence) s =
     ForAllThunks fn thunk_sequence
       (case thunk of
          ConditionalThunk branch_thunks \<Rightarrow>
            fold (\<lambda>branch. ForAllThunks fn branch) branch_thunks s
        | SequentialThunk thunks \<Rightarrow> ForAllThunks fn thunks s
        | WhileThunk condition_thunks body_thunks \<Rightarrow>
            ForAllThunks fn body_thunks (ForAllThunks fn condition_thunks s)
        | Leaf _ \<Rightarrow> fn thunk s)"

text \<open>
  The reference the traversal is compared with: the leaves of one thunk from left to
  right (for a while thunk the condition before the body), the leaves of a sequence,
  the number of leaves, and the test for a leaf.
\<close>

fun leaves :: "Thunk \<Rightarrow> Thunk list" where
  "leaves (Leaf n) = [Leaf n]"
| "leaves (SequentialThunk ts) = concat (map leaves ts)"
| "leaves (ConditionalThunk bs) = concat (map (\<lambda>b. concat (map leaves b)) bs)"
| "leaves (WhileThunk c b) = concat (map leaves c) @ concat (map leaves b)"

definition tree_order :: "Thunk list \<Rightarrow> Thunk list" where
  "tree_order ts = concat (map leaves ts)"

fun count_leaves :: "Thunk \<Rightarrow> nat" where
  "count_leaves (Leaf n) = 1"
| "count_leaves (SequentialThunk ts) = sum_list (map count_leaves ts)"
| "count_leaves (ConditionalThunk bs) =
     sum_list (map (\<lambda>b. sum_list (map count_leaves b)) bs)"
| "count_leaves (WhileThunk c b) =
     sum_list (map count_leaves c) + sum_list (map count_leaves b)"

fun is_leaf :: "Thunk \<Rightarrow> bool" where
  "is_leaf (Leaf n) = True"
| "is_leaf (SequentialThunk ts) = False"
| "is_leaf (ConditionalThunk bs) = False"
| "is_leaf (WhileThunk c b) = False"

text \<open>
  \<^verbatim>\<open>Thunk::ClearCompileTimeInfo\<close>, the action \<^verbatim>\<open>CompileModuleToLlvmIr\<close> passes:
  the state is the compile-time information held per thunk object.
\<close>

fun ClearCompileTimeInfo :: "Thunk \<Rightarrow> (nat \<rightharpoonup> string) \<Rightarrow> (nat \<rightharpoonup> string)" where
  "ClearCompileTimeInfo (Leaf n) info = info(n := None)"
| "ClearCompileTimeInfo (SequentialThunk ts) info = info"
| "ClearCompileTimeInfo (ConditionalThunk bs) info = info"
| "ClearCompileTimeInfo (WhileThunk c b) info = info"

section \<open>The verifier of argument attributes\<close>

text \<open>
  Of \<^verbatim>\<open>mlir::func::FuncOp\<close> the code reads the arguments: the type of each (a
  shaped type with an element type and a number of elements, which
  \<^verbatim>\<open>getNumElements\<close> returns as a 64-bit integer, or some other type) and its
  named attributes.
\<close>

datatype MlirType = ShapedType string "64 word" | NonShapedType

record NamedAttribute =
  attr_name :: string
  attr_value :: string

record BlockArgument =
  arg_type :: MlirType
  arg_attrs :: "NamedAttribute list"


record BufferAllocation =
  alloc_index :: int
  alloc_size :: int

text \<open>
  The first loop: \<^verbatim>\<open>TF_RET_CHECK\<close> that the type is shaped, the size of the element
  type from \<^verbatim>\<open>GetElementTypeBytes\<close> (a function of another file, here a
  parameter returning a status or the size, the size already widened to the 64 bits
  of the product), and the product pushed to \<^verbatim>\<open>buffer_sizes\<close>. The line
  \<^verbatim>\<open>size_t size = type.getNumElements() * element_type_bytes\<close> multiplies in 64
  bits, so the product wraps around at \<open>2 ^ 64\<close>; the vector holds 64-bit integers.
\<close>

fun buffer_sizes_loop ::
  "(string \<Rightarrow> Status + 64 word) \<Rightarrow> BlockArgument list \<Rightarrow> failure + 64 word list" where
  "buffer_sizes_loop GetElementTypeBytes [] = Inr []"
| "buffer_sizes_loop GetElementTypeBytes (arg # args) =
     (case arg_type arg of
        NonShapedType \<Rightarrow>
          Inl (ErrorStatus (kInternal, ''RET_CHECK failure arg.getType().isa<mlir::ShapedType>()''))
      | ShapedType element_type num_elements \<Rightarrow>
          (case GetElementTypeBytes element_type of
             Inl status \<Rightarrow> Inl (ErrorStatus status)
           | Inr element_type_bytes \<Rightarrow>
               (case buffer_sizes_loop GetElementTypeBytes args of
                  Inl e \<Rightarrow> Inl e
                | Inr buffer_sizes \<Rightarrow>
                    Inr (num_elements * element_type_bytes # buffer_sizes))))"





section \<open>The compilation entry point\<close>

text \<open>
  What \<^verbatim>\<open>CompileModuleToLlvmIr\<close> reads of its module: the name and two debug
  options. A platform id is an opaque value compared with the id of ROCm.
\<close>

record HloModule =
  name :: string
  xla_gpu_enable_shared_constants :: bool
  xla_gpu_enable_nccl_user_buffers :: bool

datatype PlatformId = kROCmPlatformId | OtherPlatformId nat

datatype Colorer = CollectiveColorer | DefaultColorer

text \<open>
  The alignment function handed to the buffer assigner is the lambda
  \<^verbatim>\<open>[](LogicalBuffer::Color) { return kXlaAllocatedBufferAlignBytes; }\<close>. The
  constant is declared in another file and is a parameter here.
\<close>

definition color_alignment :: "int \<Rightarrow> int \<Rightarrow> int" where
  "color_alignment kXlaAllocatedBufferAlignBytes color = kXlaAllocatedBufferAlignBytes"

text \<open>
  What the emitter leaves behind when \<^verbatim>\<open>EmitHloComputation\<close> succeeds: the module
  with its globals, the constants of the emitter context, the thunk sequence and the
  compile-time information of its thunks.
\<close>

record Emission =
  emitted_module :: Module
  emitted_constants :: "ConstantInfo list"
  emitted_thunks :: "Thunk list"
  emitted_thunk_info :: "nat \<rightharpoonup> string"

record ('ba, 'oi) CompileModuleResults =
  llvm_module :: Module
  buffer_assignment :: 'ba
  output_info :: 'oi
  results_module_name :: string
  use_original_allocations :: bool
  constants :: "ConstantInfo list"
  executable :: "Thunk list"
  executable_thunk_info :: "nat \<rightharpoonup> string"

definition supports_runtime_managed_constants :: "PlatformId \<Rightarrow> HloModule \<Rightarrow> bool" where
  "supports_runtime_managed_constants platform_id hlo_module =
     (platform_id \<noteq> kROCmPlatformId \<and> xla_gpu_enable_shared_constants hlo_module)"

text \<open>
  \<^verbatim>\<open>CompileModuleToLlvmIr\<close>. The buffer assigner, \<^verbatim>\<open>GetOutputInfo\<close> and the
  emitter are functions of other files and are parameters; each returns a status or
  its result, and a status is returned to the caller at once. Logging, dumping and
  timing have no effect on the result and are left out.
\<close>

definition CompileModuleToLlvmIr ::
  "int \<Rightarrow> ((int \<Rightarrow> int) \<Rightarrow> Colorer \<Rightarrow> Status + 'ba) \<Rightarrow> ('ba \<Rightarrow> Status + 'oi) \<Rightarrow>
   ('ba \<Rightarrow> Status + Emission) \<Rightarrow> HloModule \<Rightarrow> PlatformId \<Rightarrow>
   failure + ('ba, 'oi) CompileModuleResults" where
  "CompileModuleToLlvmIr kXlaAllocatedBufferAlignBytes BufferAssigner_Run GetOutputInfo
       EmitHloComputation hlo_module platform_id =
     (case BufferAssigner_Run (color_alignment kXlaAllocatedBufferAlignBytes)
             (if xla_gpu_enable_nccl_user_buffers hlo_module
              then CollectiveColorer else DefaultColorer) of
        Inl status \<Rightarrow> Inl (ErrorStatus status)
      | Inr assignment \<Rightarrow>
          (case GetOutputInfo assignment of
             Inl status \<Rightarrow> Inl (ErrorStatus status)
           | Inr info \<Rightarrow>
               (case EmitHloComputation assignment of
                  Inl status \<Rightarrow> Inl (ErrorStatus status)
                | Inr emission \<Rightarrow>
                    (case (if supports_runtime_managed_constants platform_id hlo_module
                           then RemoveUnusedAndUninitializedGlobals
                                  (emitted_module emission) (emitted_constants emission)
                           else Inr (emitted_module emission)) of
                       Inl e \<Rightarrow> Inl e
                     | Inr pruned \<Rightarrow>
                         Inr \<lparr>llvm_module = pruned,
                              buffer_assignment = assignment,
                              output_info = info,
                              results_module_name = name hlo_module,
                              use_original_allocations = True,
                              constants = emitted_constants emission,
                              executable = emitted_thunks emission,
                              executable_thunk_info =
                                ForAllThunks ClearCompileTimeInfo (emitted_thunks emission)
                                  (emitted_thunk_info emission)\<rparr>))))"

section \<open>The device linker\<close>

text \<open>
  The linker itself (\<^verbatim>\<open>CompileAndLinkUsingLibNvJitLink\<close>) is not among the source
  files; only its test \<^verbatim>\<open>nvjitlink_test.cc\<close> is. The definitions of this section
  follow the contract of the specification (section 4.5 and the data model).
\<close>

text \<open>Modelled from the spec: the compute capability given to the absent linker, a
  version tag (major, minor).\<close>

type_synonym ComputeCapability = "nat \<times> nat"

text \<open>Modelled from the spec: the order of compute capabilities used by the absent
  linker, major first, then minor.\<close>

definition cc_less :: "ComputeCapability \<Rightarrow> ComputeCapability \<Rightarrow> bool" where
  "cc_less a b = (fst a < fst b \<or> (fst a = fst b \<and> snd a < snd b))"

text \<open>Modelled from the spec: the test of the absent linker that the target
  capability exceeds every architecture the toolchain supports.\<close>

definition exceeds_every_supported ::
  "ComputeCapability list \<Rightarrow> ComputeCapability \<Rightarrow> bool" where
  "exceeds_every_supported supported targetCapability =
     list_all (\<lambda>arch. cc_less arch targetCapability) supported"

text \<open>Modelled from the spec: the declared kind of a unit given to the absent
  linker, a textual or a binary intermediate form.\<close>

datatype UnitKind = kPtx | kCubin

text \<open>Modelled from the spec: a device-code unit given to the absent linker, with
  its declared kind. Its bytes are represented by what the toolchain finds in them:
  the symbols the unit defines, the symbols it references, and whether compiling it
  spills registers, with and without optimizations.\<close>

record DeviceCodeUnit =
  kind :: UnitKind
  defined_symbols :: "string list"
  referenced_symbols :: "string list"
  spills_optimized :: bool
  spills_unoptimized :: bool

text \<open>Modelled from the spec: the options of a request to the absent linker.\<close>

record LinkOptions =
  disableOptimizations :: bool
  cancelOnRegisterSpill :: bool

text \<open>Modelled from the spec: the error kinds of the absent linker.\<close>

datatype LinkError =
    UnsupportedArchitecture
  | UnresolvedSymbol
  | RegisterSpillCancelled
  | InternalToolchainError

text \<open>Modelled from the spec: the binary the absent linker produces, made of the
  units linked into it.\<close>

datatype Binary = Binary "DeviceCodeUnit list"

text \<open>Modelled from the spec: whether the absent toolchain, under the given
  options, spills registers on a unit; disabling optimizations keeps the register
  pressure of the input.\<close>

definition would_spill :: "LinkOptions \<Rightarrow> DeviceCodeUnit \<Rightarrow> bool" where
  "would_spill options unit =
     (if disableOptimizations options then spills_unoptimized unit
      else spills_optimized unit)"

text \<open>Modelled from the spec: the compile phase of the absent linker. Each unit is
  compiled on its own, in order; with \<open>cancelOnRegisterSpill\<close> set, a unit that
  would spill aborts the request. The result lists the units whose compilation was
  started and the error, if any. A unit with unresolved externs compiles.\<close>

fun compile_units ::
  "LinkOptions \<Rightarrow> DeviceCodeUnit list \<Rightarrow> DeviceCodeUnit list \<times> LinkError option" where
  "compile_units options [] = ([], None)"
| "compile_units options (unit # units) =
     (if cancelOnRegisterSpill options \<and> would_spill options unit
      then ([unit], Some RegisterSpillCancelled)
      else (case compile_units options units of
              (compiled, err) \<Rightarrow> (unit # compiled, err)))"

text \<open>Modelled from the spec: the symbols the absent linker cannot resolve, those
  referenced by a unit of the batch and defined by no unit of the batch.\<close>

definition unresolved_symbols :: "DeviceCodeUnit list \<Rightarrow> string list" where
  "unresolved_symbols units =
     filter (\<lambda>symbol. symbol \<notin> set (concat (map defined_symbols units)))
       (concat (map referenced_symbols units))"

text \<open>Modelled from the spec: \<open>CompileAndLink\<close>, absent from the source files. The
  architecture is checked before any compilation, then the units are compiled, then
  linked. The result is the list of units whose compilation was started and the binary
  or the error. The toolchain's supported architectures are a parameter.\<close>

definition CompileAndLink ::
  "ComputeCapability list \<Rightarrow> ComputeCapability \<Rightarrow> DeviceCodeUnit list \<Rightarrow> LinkOptions \<Rightarrow>
   DeviceCodeUnit list \<times> (LinkError + Binary)" where
  "CompileAndLink supported targetCapability units options =
     (if exceeds_every_supported supported targetCapability
      then ([], Inl UnsupportedArchitecture)
      else
        (case compile_units options units of
           (compiled, Some err) \<Rightarrow> (compiled, Inl err)
         | (compiled, None) \<Rightarrow>
             (if unresolved_symbols units \<noteq> []
              then (compiled, Inl UnresolvedSymbol)
              else (compiled, Inr (Binary units)))))"

text \<open>
  The inputs of \<^verbatim>\<open>nvjitlink_test.cc\<close>, read off its PTX texts:
  \<^verbatim>\<open>kDependeePtx\<close> defines \<^verbatim>\<open>_Z5magicv\<close>; \<^verbatim>\<open>kDependentPtx\<close> defines the
  kernel and declares \<^verbatim>\<open>_Z5magicv\<close> extern; \<^verbatim>\<open>kStandalonePtx\<close> defines the
  kernel alone. The unit of \<^verbatim>\<open>CancelsOnRegSpill\<close> is \<^verbatim>\<open>kDependentPtx\<close> with
  \<^verbatim>\<open>.maxnreg 16\<close>, which the test expects to spill once optimizations are off.
\<close>

definition kDependeePtx :: DeviceCodeUnit where
  "kDependeePtx = \<lparr>kind = kPtx, defined_symbols = [''_Z5magicv''],
     referenced_symbols = [], spills_optimized = False, spills_unoptimized = False\<rparr>"

definition kDependentPtx :: DeviceCodeUnit where
  "kDependentPtx = \<lparr>kind = kPtx, defined_symbols = [''_Z6kernelPi''],
     referenced_symbols = [''_Z5magicv''], spills_optimized = False,
     spills_unoptimized = False\<rparr>"

definition kStandalonePtx :: DeviceCodeUnit where
  "kStandalonePtx = \<lparr>kind = kPtx, defined_symbols = [''_Z6kernelPi''],
     referenced_symbols = [], spills_optimized = False, spills_unoptimized = False\<rparr>"

definition dependent_ptx_maxnreg :: DeviceCodeUnit where
  "dependent_ptx_maxnreg = kDependentPtx\<lparr>spills_unoptimized := True\<rparr>"

definition kDefaultComputeCapability :: ComputeCapability where
  "kDefaultComputeCapability = (5, 2)"

definition test_supported_architectures :: "ComputeCapability list" where
  "test_supported_architectures = [(5, 2), (8, 0), (9, 0)]"

section \<open>Removal of globals\<close>

lemma erase_other: "n \<noteq> k \<Longrightarrow> eraseFromParent k m n = m n"
  by (simp add: eraseFromParent_def)

lemma erase_same: "eraseFromParent k m k = None"
  by (simp add: eraseFromParent_def)

text \<open>The three ways one round of the loop can go on when the whole run returns.\<close>

lemma Remove_Cons_cases:
  assumes "RemoveUnusedAndUninitializedGlobals m (info # cs) = Inr m'"
  obtains
    (erased) g where "content info \<noteq> []" "m (symbol_name info) = Some g" "use_empty g"
      "RemoveUnusedAndUninitializedGlobals (eraseFromParent (symbol_name info) m) cs = Inr m'"
  | (used) g where "content info \<noteq> []" "m (symbol_name info) = Some g" "\<not> use_empty g"
      "RemoveUnusedAndUninitializedGlobals m cs = Inr m'"
  | (skipped) "content info = []"
      "RemoveUnusedAndUninitializedGlobals m cs = Inr m'"
  using assms
  by (auto simp: getGlobalVariable_def split: if_splits option.splits)

text \<open>The pass never adds a global.\<close>

lemma Remove_keeps_missing:
  "RemoveUnusedAndUninitializedGlobals m cs = Inr m' \<Longrightarrow> m n = None \<Longrightarrow> m' n = None"
proof (induction cs arbitrary: m)
  case Nil
  then show ?case by simp
next
  case (Cons info cs)
  from Cons.prems(1) show ?case
  proof (cases rule: Remove_Cons_cases)
    case (erased g)
    have "eraseFromParent (symbol_name info) m n = None"
      using Cons.prems(2) by (simp add: eraseFromParent_def)
    with erased(4) show ?thesis using Cons.IH by blast
  next
    case (used g)
    then show ?thesis using Cons.IH Cons.prems(2) by blast
  next
    case skipped
    then show ?thesis using Cons.IH Cons.prems(2) by blast
  qed
qed

text \<open>
  The pass returns when every constant with content has its global and no two of
  them name the same one.
\<close>

lemma RemoveUnusedAndUninitializedGlobals_returns:
  assumes "\<forall>info \<in> set cs. content info \<noteq> [] \<longrightarrow> m (symbol_name info) \<noteq> None"
    and "distinct (map symbol_name (filter (\<lambda>info. content info \<noteq> []) cs))"
  shows "\<exists>m'. RemoveUnusedAndUninitializedGlobals m cs = Inr m'"
  using assms
proof (induction cs arbitrary: m)
  case Nil
  then show ?case by simp
next
  case (Cons info cs)
  show ?case
  proof (cases "content info = []")
    case True
    then show ?thesis using Cons.IH [of m] Cons.prems by simp
  next
    case False
    then obtain g where g: "m (symbol_name info) = Some g"
      using Cons.prems(1) by auto
    have d: "distinct (map symbol_name (filter (\<lambda>info. content info \<noteq> []) cs))"
      using Cons.prems(2) False by simp
    have here: "\<forall>i \<in> set cs. content i \<noteq> [] \<longrightarrow> m (symbol_name i) \<noteq> None"
      using Cons.prems(1) by simp
    have "\<forall>i \<in> set cs. content i \<noteq> [] \<longrightarrow>
            eraseFromParent (symbol_name info) m (symbol_name i) \<noteq> None"
    proof (intro ballI impI)
      fix i assume i: "i \<in> set cs" "content i \<noteq> []"
      have "symbol_name info \<notin> symbol_name ` {x \<in> set cs. content x \<noteq> []}"
        using Cons.prems(2) False by simp
      with i have "symbol_name i \<noteq> symbol_name info"
        by (metis (mono_tags, lifting) image_eqI mem_Collect_eq)
      then show "eraseFromParent (symbol_name info) m (symbol_name i) \<noteq> None"
        using here i by (simp add: erase_other)
    qed
    then show ?thesis
      using Cons.IH [OF _ d] here g False
      by (simp add: getGlobalVariable_def)
  qed
qed

text \<open>
  Claim C1, as amended. When \<^verbatim>\<open>RemoveUnusedAndUninitializedGlobals\<close> returns, the
  globals it has removed are exactly those that had no uses and are named by a constant
  with non-empty content; every other global is as it was. So a global named only by
  constants with empty content is never removed, used or not; the global of a constant
  with non-empty content is removed when it has no uses and kept when it has one.
\<close>

theorem RemoveUnusedAndUninitializedGlobals_removes_exactly:
  assumes "RemoveUnusedAndUninitializedGlobals m cs = Inr m'"
  shows "m' n = (if prunable m cs n then None else m n)"
  using assms
proof (induction cs arbitrary: m)
  case Nil
  then show ?case by (simp add: prunable_def)
next
  case (Cons info cs)
  from Cons.prems show ?case
  proof (cases rule: Remove_Cons_cases)
    case (erased g)
    show ?thesis
    proof (cases "n = symbol_name info")
      case True
      have "m' n = None"
        using Remove_keeps_missing [OF erased(4), of n] True by (simp add: erase_same)
      moreover have "prunable m (info # cs) n"
        using erased True by (auto simp: prunable_def)
      ultimately show ?thesis by simp
    next
      case False
      have "prunable (eraseFromParent (symbol_name info) m) cs n = prunable m (info # cs) n"
        using False by (auto simp: prunable_def erase_other)
      then show ?thesis using Cons.IH [OF erased(4)] False by (simp add: erase_other)
    qed
  next
    case (used g)
    have "prunable m cs n = prunable m (info # cs) n"
      using used by (auto simp: prunable_def)
    then show ?thesis using Cons.IH [OF used(4)] by simp
  next
    case skipped
    have "prunable m cs n = prunable m (info # cs) n"
      using skipped by (auto simp: prunable_def)
    then show ?thesis using Cons.IH [OF skipped(2)] by simp
  qed
qed

text \<open>
  Claim C1 at a module with three unused or used globals: \<open>a\<close> (no uses, constant
  with content) is removed, \<open>b\<close> (no uses, constant with empty content) and \<open>c\<close>
  (two uses, constant with content) stay.
\<close>

theorem RemoveUnusedAndUninitializedGlobals_removes_exactly_witness:
  "RemoveUnusedAndUninitializedGlobals
     [''a'' \<mapsto> \<lparr>num_uses = 0\<rparr>, ''b'' \<mapsto> \<lparr>num_uses = 0\<rparr>, ''c'' \<mapsto> \<lparr>num_uses = 2\<rparr>]
     [\<lparr>symbol_name = ''a'', content = [1, 2], allocation_index = 0\<rparr>,
      \<lparr>symbol_name = ''b'', content = [], allocation_index = 1\<rparr>,
      \<lparr>symbol_name = ''c'', content = [3], allocation_index = 2\<rparr>]
     = Inr [''b'' \<mapsto> \<lparr>num_uses = 0\<rparr>, ''c'' \<mapsto> \<lparr>num_uses = 2\<rparr>]
   \<and> [''b'' \<mapsto> \<lparr>num_uses = 0\<rparr>, ''c'' \<mapsto> \<lparr>num_uses = 2\<rparr>] ''a'' = None"
proof -
  let ?m = "[''a'' \<mapsto> \<lparr>num_uses = 0\<rparr>, ''b'' \<mapsto> \<lparr>num_uses = 0\<rparr>, ''c'' \<mapsto> \<lparr>num_uses = 2\<rparr>]"
  let ?cs = "[\<lparr>symbol_name = ''a'', content = [1, 2], allocation_index = 0\<rparr>,
      \<lparr>symbol_name = ''b'', content = [], allocation_index = 1\<rparr>,
      \<lparr>symbol_name = ''c'', content = [3::nat], allocation_index = 2\<rparr>]"
  let ?m' = "[''b'' \<mapsto> \<lparr>num_uses = 0\<rparr>, ''c'' \<mapsto> \<lparr>num_uses = 2\<rparr>]"
  have run: "RemoveUnusedAndUninitializedGlobals ?m ?cs = Inr ?m'"
    by (simp add: getGlobalVariable_def eraseFromParent_def use_empty_def fun_upd_twist)
  have "prunable ?m ?cs ''a''"
    by (simp add: prunable_def use_empty_def)
  with RemoveUnusedAndUninitializedGlobals_removes_exactly [OF run, of "''a''"] run
  show ?thesis by simp
qed

text \<open>
  Claim C1 as the specification words it fails both ways: an unused global whose
  constant has non-empty content is removed, and an unused global whose constant has
  empty content is kept.
\<close>

theorem RemoveUnusedAndUninitializedGlobals_content_counterexample:
  "RemoveUnusedAndUninitializedGlobals [''c'' \<mapsto> \<lparr>num_uses = 0\<rparr>]
     [\<lparr>symbol_name = ''c'', content = [42], allocation_index = 0\<rparr>] = Inr Map.empty
   \<and> RemoveUnusedAndUninitializedGlobals [''c'' \<mapsto> \<lparr>num_uses = 0\<rparr>]
     [\<lparr>symbol_name = ''c'', content = [], allocation_index = 0\<rparr>]
       = Inr [''c'' \<mapsto> \<lparr>num_uses = 0\<rparr>]"
  by (simp add: getGlobalVariable_def eraseFromParent_def use_empty_def)

text \<open>
  Claim C9. If some constant of the list has non-empty content and the module has no
  global of its symbol name, the run ends in the failed
  \<^verbatim>\<open>CHECK(global != nullptr)\<close>, which aborts the process; no status is returned.
\<close>

theorem RemoveUnusedAndUninitializedGlobals_missing_global_aborts:
  assumes "info \<in> set cs" and "content info \<noteq> []"
    and "getGlobalVariable m (symbol_name info) = None"
  shows "RemoveUnusedAndUninitializedGlobals m cs = Inl (CheckFailure ''global != nullptr'')"
  using assms
proof (induction cs arbitrary: m)
  case Nil
  then show ?case by simp
next
  case (Cons c cs)
  show ?case
  proof (cases "c = info")
    case True
    with Cons.prems show ?thesis by simp
  next
    case False
    with Cons.prems have mem: "info \<in> set cs" by simp
    have "getGlobalVariable (eraseFromParent k m) (symbol_name info) = None" for k
      using Cons.prems(3) by (simp add: getGlobalVariable_def eraseFromParent_def)
    then show ?thesis
      using Cons.IH [OF mem Cons.prems(2)] Cons.prems(3)
      by (simp split: option.splits)
  qed
qed

text \<open>
  Claim C9 at a list whose second constant names a global the module does not have;
  the first constant's global is there and unused.
\<close>

theorem RemoveUnusedAndUninitializedGlobals_missing_global_aborts_witness:
  "\<lparr>symbol_name = ''missing'', content = [7], allocation_index = 1\<rparr>
     \<in> set [\<lparr>symbol_name = ''a'', content = [1], allocation_index = 0\<rparr>,
            \<lparr>symbol_name = ''missing'', content = [7], allocation_index = 1\<rparr>]
   \<and> RemoveUnusedAndUninitializedGlobals [''a'' \<mapsto> \<lparr>num_uses = 0\<rparr>]
       [\<lparr>symbol_name = ''a'', content = [1], allocation_index = 0\<rparr>,
        \<lparr>symbol_name = ''missing'', content = [7], allocation_index = 1\<rparr>]
     = Inl (CheckFailure ''global != nullptr'')"
  using RemoveUnusedAndUninitializedGlobals_missing_global_aborts
          [of "\<lparr>symbol_name = ''missing'', content = [7], allocation_index = 1\<rparr>"
              "[\<lparr>symbol_name = ''a'', content = [1], allocation_index = 0\<rparr>,
                \<lparr>symbol_name = ''missing'', content = [7], allocation_index = 1\<rparr>]"
              "[''a'' \<mapsto> \<lparr>num_uses = 0\<rparr>]"]
  by (simp add: getGlobalVariable_def)

section \<open>Traversal of the thunk tree\<close>

lemma tree_order_Nil: "tree_order [] = []"
  by (simp add: tree_order_def)

lemma tree_order_Cons: "tree_order (t # ts) = leaves t @ tree_order ts"
  by (simp add: tree_order_def)

lemma leaves_SequentialThunk: "leaves (SequentialThunk ts) = tree_order ts"
  by (simp add: tree_order_def)

lemma leaves_ConditionalThunk: "leaves (ConditionalThunk bs) = concat (map tree_order bs)"
  by (simp add: tree_order_def [abs_def])

lemma leaves_WhileThunk: "leaves (WhileThunk c b) = tree_order c @ tree_order b"
  by (simp add: tree_order_def)

text \<open>The inner loop over the branches of a conditional thunk.\<close>

lemma ForAllThunks_branches:
  assumes "\<And>b s. b \<in> set bs \<Longrightarrow> ForAllThunks fn b s = fold fn (tree_order b) s"
  shows "fold (ForAllThunks fn) bs s = fold fn (concat (map tree_order bs)) s"
  using assms by (induction bs arbitrary: s) simp_all

lemma ForAllThunks_fold: "ForAllThunks fn ts s = fold fn (tree_order ts) s"
proof (induction fn ts s rule: ForAllThunks.induct)
  case (1 fn s)
  show ?case by (simp add: tree_order_Nil)
next
  case (2 fn thunk thunk_sequence s)
  show ?case
  proof (cases thunk)
    case (Leaf n)
    with 2(5) show ?thesis by (simp add: tree_order_Cons)
  next
    case (SequentialThunk thunks)
    with 2(1,5) show ?thesis
      by (simp add: tree_order_Cons leaves_SequentialThunk del: leaves.simps)
  next
    case (ConditionalThunk bs)
    have "fold (ForAllThunks fn) bs s = fold fn (concat (map tree_order bs)) s"
      using 2(2) [OF ConditionalThunk] by (rule ForAllThunks_branches)
    with 2(5) ConditionalThunk show ?thesis
      by (simp add: tree_order_Cons leaves_ConditionalThunk del: leaves.simps)
  next
    case (WhileThunk c b)
    with 2(3,4,5) show ?thesis
      by (simp add: tree_order_Cons leaves_WhileThunk del: leaves.simps)
  qed
qed

lemma fold_snoc_log: "fold (\<lambda>t log. log @ [t]) ts log = log @ ts"
  by (induction ts arbitrary: log) simp_all

lemma length_leaves: "length (leaves t) = count_leaves t"
  by (induction t rule: leaves.induct)
     (simp_all add: length_concat comp_def cong: map_cong)

lemma length_tree_order: "length (tree_order ts) = sum_list (map count_leaves ts)"
  by (simp add: tree_order_def length_concat comp_def length_leaves)

lemma leaves_are_leaves: "x \<in> set (leaves t) \<Longrightarrow> is_leaf x"
  by (induction t arbitrary: x rule: leaves.induct) auto

lemma tree_order_leaves: "list_all is_leaf (tree_order ts)"
  by (auto simp: tree_order_def list_all_iff leaves_are_leaves)

text \<open>
  Claim C2. For every thunk sequence, every action and every starting state,
  \<^verbatim>\<open>ForAllThunks\<close> has the effect of calling the action on the leaves of the tree
  one after the other in tree order (for a while thunk the leaves of the condition
  before those of the body). With the action that appends its argument to a log, the
  log of the calls is the list of leaves in tree order: each leaf once, nothing else.
  No composite thunk is in that list, and its length is the number of leaves.
\<close>

theorem ForAllThunks_visits_each_leaf_once:
  "ForAllThunks fn ts s = fold fn (tree_order ts) s
   \<and> ForAllThunks (\<lambda>t log. log @ [t]) ts [] = tree_order ts
   \<and> list_all is_leaf (tree_order ts)
   \<and> length (tree_order ts) = sum_list (map count_leaves ts)"
  by (simp add: ForAllThunks_fold fold_snoc_log tree_order_leaves length_tree_order)

section \<open>The verifier of argument attributes\<close>





text \<open>The product of line 201 wraps around: \<open>2 ^ 32\<close> elements of \<open>2 ^ 32\<close> bytes
  give the size 0.\<close>

lemma buffer_sizes_loop_wraps:
  "buffer_sizes_loop (\<lambda>element_type. Inr 4294967296)
     [\<lparr>arg_type = ShapedType ''f32'' 4294967296, arg_attrs = []\<rparr>] = Inr [0]"
  by simp



section \<open>The compilation entry point\<close>

text \<open>
  Claim C10. The alignment function handed to the buffer assigner returns
  \<^verbatim>\<open>kXlaAllocatedBufferAlignBytes\<close> for every color, so the same value for any two
  colors; the compilation is the same when the buffer assigner is given that constant
  function whatever it is handed.
\<close>

theorem color_alignment_constant:
  "color_alignment kXlaAllocatedBufferAlignBytes color = kXlaAllocatedBufferAlignBytes
   \<and> color_alignment kXlaAllocatedBufferAlignBytes color
       = color_alignment kXlaAllocatedBufferAlignBytes color'
   \<and> CompileModuleToLlvmIr kXlaAllocatedBufferAlignBytes BufferAssigner_Run GetOutputInfo
         EmitHloComputation hlo_module platform_id
       = CompileModuleToLlvmIr kXlaAllocatedBufferAlignBytes
           (\<lambda>alignment. BufferAssigner_Run (\<lambda>color. kXlaAllocatedBufferAlignBytes))
           GetOutputInfo EmitHloComputation hlo_module platform_id"
proof -
  have "color_alignment kXlaAllocatedBufferAlignBytes = (\<lambda>color. kXlaAllocatedBufferAlignBytes)"
    by (rule ext) (simp add: color_alignment_def)
  then show ?thesis
    by (simp add: CompileModuleToLlvmIr_def color_alignment_def)
qed

text \<open>
  Claim C4. Once buffer assignment, output info and the emission of the entry
  computation have succeeded: if the platform is not ROCm and
  \<^verbatim>\<open>xla_gpu_enable_shared_constants\<close> is set, the outcome is that of
  \<^verbatim>\<open>RemoveUnusedAndUninitializedGlobals\<close> on the emitted module and constants (its
  module, or its abort); otherwise the compilation succeeds and the module of the
  result is the emitted module, with every global in place.
\<close>

theorem CompileModuleToLlvmIr_removal_gate:
  assumes "BufferAssigner_Run (color_alignment k)
             (if xla_gpu_enable_nccl_user_buffers hlo_module
              then CollectiveColorer else DefaultColorer) = Inr assignment"
    and "GetOutputInfo assignment = Inr info"
    and "EmitHloComputation assignment = Inr emission"
  shows "map_sum id llvm_module
           (CompileModuleToLlvmIr k BufferAssigner_Run GetOutputInfo EmitHloComputation
              hlo_module platform_id)
         = (if platform_id \<noteq> kROCmPlatformId \<and> xla_gpu_enable_shared_constants hlo_module
            then RemoveUnusedAndUninitializedGlobals
                   (emitted_module emission) (emitted_constants emission)
            else Inr (emitted_module emission))"
  using assms
  by (simp add: CompileModuleToLlvmIr_def supports_runtime_managed_constants_def
           split: sum.splits)

text \<open>
  Claim C4 at an emission with one unused global whose constant has content, the flag
  set: on ROCm the global stays, on another platform it is removed.
\<close>

theorem CompileModuleToLlvmIr_removal_gate_witness:
  "map_sum id llvm_module
     (CompileModuleToLlvmIr 64 (\<lambda>align colorer. Inr (align 0)) (\<lambda>assignment. Inr ())
        (\<lambda>assignment. Inr \<lparr>emitted_module = [''c'' \<mapsto> \<lparr>num_uses = 0\<rparr>],
            emitted_constants = [\<lparr>symbol_name = ''c'', content = [42], allocation_index = 0\<rparr>],
            emitted_thunks = [Leaf 0], emitted_thunk_info = [0 \<mapsto> ''op'']\<rparr>)
        \<lparr>name = ''m'', xla_gpu_enable_shared_constants = True,
          xla_gpu_enable_nccl_user_buffers = False\<rparr> kROCmPlatformId)
     = Inr [''c'' \<mapsto> \<lparr>num_uses = 0\<rparr>]
   \<and> map_sum id llvm_module
     (CompileModuleToLlvmIr 64 (\<lambda>align colorer. Inr (align 0)) (\<lambda>assignment. Inr ())
        (\<lambda>assignment. Inr \<lparr>emitted_module = [''c'' \<mapsto> \<lparr>num_uses = 0\<rparr>],
            emitted_constants = [\<lparr>symbol_name = ''c'', content = [42], allocation_index = 0\<rparr>],
            emitted_thunks = [Leaf 0], emitted_thunk_info = [0 \<mapsto> ''op'']\<rparr>)
        \<lparr>name = ''m'', xla_gpu_enable_shared_constants = True,
          xla_gpu_enable_nccl_user_buffers = False\<rparr> (OtherPlatformId 0))
     = Inr Map.empty"
proof -
  let ?run = "\<lambda>(align :: int \<Rightarrow> int) (colorer :: Colorer). (Inr (align 0) :: Status + int)"
  let ?info = "\<lambda>assignment :: int. (Inr () :: Status + unit)"
  let ?em = "\<lparr>emitted_module = [''c'' \<mapsto> \<lparr>num_uses = 0\<rparr>],
            emitted_constants = [\<lparr>symbol_name = ''c'', content = [42], allocation_index = 0\<rparr>],
            emitted_thunks = [Leaf 0], emitted_thunk_info = [0 \<mapsto> ''op'']\<rparr>"
  let ?emit = "\<lambda>assignment :: int. (Inr ?em :: Status + Emission)"
  let ?hlo = "\<lparr>name = ''m'', xla_gpu_enable_shared_constants = True,
          xla_gpu_enable_nccl_user_buffers = False\<rparr>"
  have a: "?run (color_alignment 64)
             (if xla_gpu_enable_nccl_user_buffers ?hlo
              then CollectiveColorer else DefaultColorer) = Inr 64"
    by (simp add: color_alignment_def)
  have b: "?info 64 = Inr ()" by simp
  have c: "?emit 64 = Inr ?em" by simp
  have r: "RemoveUnusedAndUninitializedGlobals [''c'' \<mapsto> \<lparr>num_uses = 0\<rparr>]
     [\<lparr>symbol_name = ''c'', content = [42], allocation_index = 0\<rparr>] = Inr Map.empty"
    by (simp add: getGlobalVariable_def eraseFromParent_def use_empty_def)
  show ?thesis
    using CompileModuleToLlvmIr_removal_gate
            [of ?run 64 ?hlo 64 ?info "()" ?emit ?em kROCmPlatformId, OF a b c]
      CompileModuleToLlvmIr_removal_gate
            [of ?run 64 ?hlo 64 ?info "()" ?emit ?em "OtherPlatformId 0", OF a b c] r
    by simp
qed

section \<open>The device linker\<close>

lemma compile_units_no_cancel:
  "\<forall>unit \<in> set units. \<not> (cancelOnRegisterSpill options \<and> would_spill options unit) \<Longrightarrow>
   compile_units options units = (units, None)"
  by (induction units) simp_all

lemma compile_units_cancel:
  "cancelOnRegisterSpill options \<Longrightarrow> unit \<in> set units \<Longrightarrow> would_spill options unit \<Longrightarrow>
   snd (compile_units options units) = Some RegisterSpillCancelled"
  by (induction units) (auto split: prod.splits)

lemma would_spill_cancel_update:
  "would_spill (options\<lparr>cancelOnRegisterSpill := b\<rparr>) unit = would_spill options unit"
  by (simp add: would_spill_def)

lemma test_capability_supported:
  "\<not> exceeds_every_supported test_supported_architectures kDefaultComputeCapability"
  by (simp add: exceeds_every_supported_def test_supported_architectures_def cc_less_def
      kDefaultComputeCapability_def)

text \<open>
  Claim C6. For every target capability that exceeds every architecture the toolchain
  supports, whatever the units and the options, \<open>CompileAndLink\<close> fails with
  \<open>UnsupportedArchitecture\<close>, and the compilation of no unit has been started.
\<close>

theorem CompileAndLink_unsupported_architecture:
  assumes "exceeds_every_supported supported targetCapability"
  shows "CompileAndLink supported targetCapability units options
           = ([], Inl UnsupportedArchitecture)"
  using assms by (simp add: CompileAndLink_def)

text \<open>
  Claim C6 at the input of the test \<^verbatim>\<open>IdentifiesUnsupportedArchitecture\<close>: compute
  capability 100.0 and the standalone unit.
\<close>

theorem CompileAndLink_unsupported_architecture_witness:
  "exceeds_every_supported test_supported_architectures (100, 0)
   \<and> CompileAndLink test_supported_architectures (100, 0) [kStandalonePtx]
        \<lparr>disableOptimizations = False, cancelOnRegisterSpill = False\<rparr>
      = ([], Inl UnsupportedArchitecture)"
proof -
  have h: "exceeds_every_supported test_supported_architectures (100, 0)"
    by (simp add: exceeds_every_supported_def test_supported_architectures_def cc_less_def)
  show ?thesis
    using h CompileAndLink_unsupported_architecture [OF h, of "[kStandalonePtx]"
        "\<lparr>disableOptimizations = False, cancelOnRegisterSpill = False\<rparr>"]
    by simp
qed

text \<open>
  Claim C8. At a supported capability, a single unit that references no symbol it
  does not define itself compiles and links on its own into a binary made of that
  unit, in a request that the register-spill policy does not cancel.
\<close>

theorem CompileAndLink_single_unit:
  assumes "\<not> exceeds_every_supported supported targetCapability"
    and "set (referenced_symbols unit) \<subseteq> set (defined_symbols unit)"
    and "\<not> (cancelOnRegisterSpill options \<and> would_spill options unit)"
  shows "CompileAndLink supported targetCapability [unit] options
           = ([unit], Inr (Binary [unit]))"
proof -
  have "unresolved_symbols [unit] = []"
    using assms(2) by (auto simp: unresolved_symbols_def filter_empty_conv)
  moreover have "compile_units options [unit] = ([unit], None)"
    using assms(3) by simp
  ultimately show ?thesis
    using assms(1) by (simp add: CompileAndLink_def)
qed

text \<open>
  Claim C8 at the input of the test \<^verbatim>\<open>CanAlsoJustCompileSingleCompilationUnit\<close>.
\<close>

theorem CompileAndLink_single_unit_witness:
  "\<not> exceeds_every_supported test_supported_architectures kDefaultComputeCapability
   \<and> set (referenced_symbols kStandalonePtx) \<subseteq> set (defined_symbols kStandalonePtx)
   \<and> CompileAndLink test_supported_architectures kDefaultComputeCapability [kStandalonePtx]
        \<lparr>disableOptimizations = False, cancelOnRegisterSpill = False\<rparr>
      = ([kStandalonePtx], Inr (Binary [kStandalonePtx]))"
proof -
  let ?opts = "\<lparr>disableOptimizations = False, cancelOnRegisterSpill = False\<rparr>"
  note a = test_capability_supported
  have b: "set (referenced_symbols kStandalonePtx) \<subseteq> set (defined_symbols kStandalonePtx)"
    by (simp add: kStandalonePtx_def)
  have c: "\<not> (cancelOnRegisterSpill ?opts \<and> would_spill ?opts kStandalonePtx)"
    by simp
  show ?thesis using a b CompileAndLink_single_unit [OF a b c] by simp
qed

text \<open>
  Claim C7. At a supported capability and in a request that the register-spill policy
  does not cancel: a unit that references a symbol it does not define, given alone,
  is compiled and then fails to link with \<open>UnresolvedSymbol\<close>; given together with
  a unit so that every symbol referenced in the batch is defined in the batch, the
  two link into a binary.
\<close>

theorem CompileAndLink_unresolved_symbol:
  assumes "\<not> exceeds_every_supported supported targetCapability"
    and "symbol \<in> set (referenced_symbols dependent)"
    and "symbol \<notin> set (defined_symbols dependent)"
    and "set (referenced_symbols dependent) \<union> set (referenced_symbols dependee)
           \<subseteq> set (defined_symbols dependent) \<union> set (defined_symbols dependee)"
    and "\<not> (cancelOnRegisterSpill options \<and> would_spill options dependent)"
    and "\<not> (cancelOnRegisterSpill options \<and> would_spill options dependee)"
  shows "CompileAndLink supported targetCapability [dependent] options
           = ([dependent], Inl UnresolvedSymbol)
         \<and> CompileAndLink supported targetCapability [dependent, dependee] options
           = ([dependent, dependee], Inr (Binary [dependent, dependee]))"
proof -
  have "symbol \<in> set (unresolved_symbols [dependent])"
    using assms(2,3) by (simp add: unresolved_symbols_def)
  then have one: "unresolved_symbols [dependent] \<noteq> []" by auto
  have two: "unresolved_symbols [dependent, dependee] = []"
    using assms(4) by (auto simp: unresolved_symbols_def filter_empty_conv)
  have c1: "compile_units options [dependent] = ([dependent], None)"
    using assms(5) by simp
  have c2: "compile_units options [dependent, dependee] = ([dependent, dependee], None)"
    using assms(5,6) by simp
  show ?thesis
    using assms(1) one two c1 c2 by (simp add: CompileAndLink_def)
qed

text \<open>
  Claim C7 at the inputs of the tests \<^verbatim>\<open>LinkingFailsWhenDependeeIsMissing\<close> and
  \<^verbatim>\<open>LinkingTwoCompilationUnitsSucceeds\<close>.
\<close>

theorem CompileAndLink_unresolved_symbol_witness:
  "\<not> exceeds_every_supported test_supported_architectures kDefaultComputeCapability
   \<and> ''_Z5magicv'' \<in> set (referenced_symbols kDependentPtx)
   \<and> ''_Z5magicv'' \<notin> set (defined_symbols kDependentPtx)
   \<and> CompileAndLink test_supported_architectures kDefaultComputeCapability [kDependentPtx]
        \<lparr>disableOptimizations = False, cancelOnRegisterSpill = False\<rparr>
      = ([kDependentPtx], Inl UnresolvedSymbol)
   \<and> CompileAndLink test_supported_architectures kDefaultComputeCapability
        [kDependentPtx, kDependeePtx]
        \<lparr>disableOptimizations = False, cancelOnRegisterSpill = False\<rparr>
      = ([kDependentPtx, kDependeePtx], Inr (Binary [kDependentPtx, kDependeePtx]))"
proof -
  let ?opts = "\<lparr>disableOptimizations = False, cancelOnRegisterSpill = False\<rparr>"
  note a = test_capability_supported
  have b: "''_Z5magicv'' \<in> set (referenced_symbols kDependentPtx)"
    by (simp add: kDependentPtx_def)
  have c: "''_Z5magicv'' \<notin> set (defined_symbols kDependentPtx)"
    by (simp add: kDependentPtx_def)
  have d: "set (referenced_symbols kDependentPtx) \<union> set (referenced_symbols kDependeePtx)
           \<subseteq> set (defined_symbols kDependentPtx) \<union> set (defined_symbols kDependeePtx)"
    by (simp add: kDependentPtx_def kDependeePtx_def)
  have e: "\<not> (cancelOnRegisterSpill ?opts \<and> would_spill ?opts kDependentPtx)" by simp
  have f: "\<not> (cancelOnRegisterSpill ?opts \<and> would_spill ?opts kDependeePtx)" by simp
  show ?thesis using a b c CompileAndLink_unresolved_symbol [OF a b c d e f] by simp
qed

text \<open>
  Claim C3. At a supported capability, for a batch in which every referenced symbol
  is defined and one unit would spill registers under the given optimization setting:
  with \<open>cancelOnRegisterSpill\<close> set the request fails with
  \<open>RegisterSpillCancelled\<close>, and with it unset the same batch links into a binary.
\<close>

theorem CompileAndLink_register_spill:
  assumes "\<not> exceeds_every_supported supported targetCapability"
    and "unit \<in> set units"
    and "would_spill options unit"
    and "unresolved_symbols units = []"
  shows "snd (CompileAndLink supported targetCapability units
                (options\<lparr>cancelOnRegisterSpill := True\<rparr>)) = Inl RegisterSpillCancelled
         \<and> snd (CompileAndLink supported targetCapability units
                (options\<lparr>cancelOnRegisterSpill := False\<rparr>)) = Inr (Binary units)"
proof -
  have "snd (compile_units (options\<lparr>cancelOnRegisterSpill := True\<rparr>) units)
          = Some RegisterSpillCancelled"
    using assms(2,3)
    by (intro compile_units_cancel [where unit = unit])
       (simp_all add: would_spill_cancel_update)
  moreover have "compile_units (options\<lparr>cancelOnRegisterSpill := False\<rparr>) units = (units, None)"
    by (rule compile_units_no_cancel) simp
  ultimately show ?thesis
    using assms(1,4) by (auto simp: CompileAndLink_def split: prod.splits option.splits)
qed

text \<open>
  Claim C3 at the input of the test \<^verbatim>\<open>CancelsOnRegSpill\<close>: the dependent unit with
  its register count capped, the dependee, optimizations disabled.
\<close>

theorem CompileAndLink_register_spill_witness:
  "\<not> exceeds_every_supported test_supported_architectures kDefaultComputeCapability
   \<and> would_spill \<lparr>disableOptimizations = True, cancelOnRegisterSpill = False\<rparr> dependent_ptx_maxnreg
   \<and> snd (CompileAndLink test_supported_architectures kDefaultComputeCapability
        [dependent_ptx_maxnreg, kDependeePtx]
        \<lparr>disableOptimizations = True, cancelOnRegisterSpill = True\<rparr>)
      = Inl RegisterSpillCancelled
   \<and> snd (CompileAndLink test_supported_architectures kDefaultComputeCapability
        [dependent_ptx_maxnreg, kDependeePtx]
        \<lparr>disableOptimizations = True, cancelOnRegisterSpill = False\<rparr>)
      = Inr (Binary [dependent_ptx_maxnreg, kDependeePtx])"
proof -
  let ?opts = "\<lparr>disableOptimizations = True, cancelOnRegisterSpill = False\<rparr>"
  note a = test_capability_supported
  have b: "dependent_ptx_maxnreg \<in> set [dependent_ptx_maxnreg, kDependeePtx]" by simp
  have c: "would_spill ?opts dependent_ptx_maxnreg"
    by (simp add: would_spill_def dependent_ptx_maxnreg_def)
  have d: "unresolved_symbols [dependent_ptx_maxnreg, kDependeePtx] = []"
    by (simp add: unresolved_symbols_def dependent_ptx_maxnreg_def kDependentPtx_def
        kDependeePtx_def)
  show ?thesis using a c CompileAndLink_register_spill [OF a b c d] by simp
qed

end
